theory Spec2Isabelle
  imports Main "HOL-Library.Word"
begin

unbundle bit_operations_syntax

section \<open>The cluster id cache of the GCE cloud provider\<close>

text \<open>
  A shallow embedding of \<^verbatim>\<open>pkg/cloudprovider/providers/gce/gce_clusterid.go\<close>.
  The struct \<^verbatim>\<open>ClusterId\<close> is a record, its two \<^verbatim>\<open>*string\<close> fields are
  \<open>string option\<close> (\<open>None\<close> is the nil pointer), every Go \<^verbatim>\<open>error\<close> return is an
  \<open>error option\<close> (\<open>None\<close> is nil), and every call that leaves the process (the informer
  store, the random source, the API client) is recorded in a list of \<open>io\<close> events that
  each function returns beside its result. The reader/writer lock \<^verbatim>\<open>idLock\<close> is
  not modelled: every function below is one sequential call.
\<close>

subsection \<open>Constants\<close>

definition UIDConfigMapName :: string where
  "UIDConfigMapName = ''ingress-uid''"

text \<open>
  Modelled from the spec: the fixed well-known system namespace. The source takes it from
  \<^verbatim>\<open>metav1.NamespaceSystem\<close>, which is declared in another package; no result below
  depends on its value.
\<close>

definition UIDNamespace :: string where
  "UIDNamespace = ''kube-system''"

definition UIDCluster :: string where
  "UIDCluster = ''uid''"

definition UIDProvider :: string where
  "UIDProvider = ''provider-uid''"

definition UIDLengthBytes :: nat where
  "UIDLengthBytes = 8"

subsection \<open>Data\<close>

text \<open>
  The errors the file itself makes (\<^verbatim>\<open>errors.New\<close>, \<^verbatim>\<open>fmt.Errorf\<close>) and the ones
  its collaborators hand back. \<open>ErrExpectedConfigMap ok\<close> carries the \<^verbatim>\<open>typeIsOk\<close>
  flag of the message; \<open>ErrAlreadyExists\<close> is the API server's answer to the creation of
  an object that is already there; \<open>ErrExternal\<close> is any other collaborator error.
\<close>

datatype error =
    ErrNotReady
  | ErrNoClusterId
  | ErrExpectedConfigMap bool
  | ErrAlreadyExists
  | ErrExternal string

record ConfigMap =
  Name :: string
  Namespace :: string
  Data :: "string \<rightharpoonup> string"

text \<open>
  What \<^verbatim>\<open>store.GetByKey\<close> hands back as \<^verbatim>\<open>interface{}\<close>: the nil interface, a
  \<^verbatim>\<open>*v1.ConfigMap\<close> (possibly a nil pointer of that type), or a value of another type.
\<close>

datatype item = NilItem | ConfigMapPtr "ConfigMap option" | OtherItem

text \<open>\<^verbatim>\<open>cache.Store\<close>, as far as the file uses it: \<^verbatim>\<open>GetByKey(key) (item, exists, err)\<close>.\<close>

type_synonym Store = "string \<Rightarrow> item \<times> bool \<times> error option"

text \<open>
  \<^verbatim>\<open>clientset.Interface\<close>, as far as the file uses it:
  \<^verbatim>\<open>Core().ConfigMaps(UIDNamespace).Create(cfg)\<close>, whose returned object is discarded.
\<close>

type_synonym Client = "ConfigMap \<Rightarrow> error option"

record ClusterId =
  client :: Client
  cfgMapKey :: string
  store :: "Store option"
  providerId :: "string option"
  clusterId :: "string option"

text \<open>
  \<^verbatim>\<open>crypto/rand\<close>: the bytes a successful \<^verbatim>\<open>rand.Read\<close> writes into the buffer, by
  index, and the error of the call.
\<close>

record Rand =
  rand_bytes :: "nat \<Rightarrow> 8 word"
  rand_err :: "error option"

datatype io = StoreGetByKey string | RandRead nat | ClientCreate ConfigMap

subsection \<open>Operations\<close>

text \<open>
  \<^verbatim>\<open>hex.EncodeToString\<close> of the Go standard library: two characters of
  \<^verbatim>\<open>"0123456789abcdef"\<close> for each byte, high nibble first.
\<close>

definition hextable :: string where
  "hextable = ''0123456789abcdef''"

definition EncodeToString :: "8 word list \<Rightarrow> string" where
  "EncodeToString src =
     concat (map (\<lambda>v. [hextable ! unat (drop_bit 4 v), hextable ! unat (v AND 0x0f)]) src)"

definition setIds :: "ConfigMap \<Rightarrow> ClusterId \<Rightarrow> ClusterId" where
  "setIds m ci =
     (let ci1 = (case Data m UIDCluster of
                   Some cid \<Rightarrow> ci\<lparr>clusterId := Some cid\<rparr>
                 | None \<Rightarrow> ci)
      in (case Data m UIDProvider of
            Some provId \<Rightarrow> ci1\<lparr>providerId := Some provId\<rparr>
          | None \<Rightarrow> ci1))"

definition makeUID :: "Rand \<Rightarrow> (string \<times> error option) \<times> io list" where
  "makeUID rnd =
     (case rand_err rnd of
        Some err \<Rightarrow> (('''', Some err), [RandRead UIDLengthBytes])
      | None \<Rightarrow> ((EncodeToString (map (rand_bytes rnd) [0..<UIDLengthBytes]), None),
                 [RandRead UIDLengthBytes]))"

text \<open>
  \<open>getConfigMap\<close> is only called once \<^verbatim>\<open>ci.store\<close> is known not to be nil; the store
  it reads is passed as \<open>s\<close>.
\<close>

definition getConfigMap :: "Store \<Rightarrow> ClusterId \<Rightarrow> (bool \<times> error option) \<times> ClusterId \<times> io list" where
  "getConfigMap s ci =
     (case s (cfgMapKey ci) of (it, exists, err) \<Rightarrow>
        (case err of
           Some e \<Rightarrow> ((False, Some e), ci, [StoreGetByKey (cfgMapKey ci)])
         | None \<Rightarrow>
            if \<not> exists then ((False, None), ci, [StoreGetByKey (cfgMapKey ci)])
            else (case it of
                    ConfigMapPtr (Some m) \<Rightarrow>
                      ((True, None), setIds m ci, [StoreGetByKey (cfgMapKey ci)])
                  | ConfigMapPtr None \<Rightarrow>
                      ((False, Some (ErrExpectedConfigMap True)), ci,
                       [StoreGetByKey (cfgMapKey ci)])
                  | _ \<Rightarrow>
                      ((False, Some (ErrExpectedConfigMap False)), ci,
                       [StoreGetByKey (cfgMapKey ci)]))))"

text \<open>
  The record literal \<^verbatim>\<open>cfg\<close> that \<^verbatim>\<open>getOrInitialize\<close> builds from the fresh id: the
  fixed name and namespace, and both data keys set to the same id.
\<close>

definition newConfigMap :: "string \<Rightarrow> ConfigMap" where
  "newConfigMap newId =
     \<lparr>Name = UIDConfigMapName, Namespace = UIDNamespace,
      Data = [UIDCluster \<mapsto> newId, UIDProvider \<mapsto> newId]\<rparr>"

definition getOrInitialize :: "Rand \<Rightarrow> ClusterId \<Rightarrow> error option \<times> ClusterId \<times> io list" where
  "getOrInitialize rnd ci =
     (case store ci of
        None \<Rightarrow> (Some ErrNotReady, ci, [])
      | Some s \<Rightarrow>
          if clusterId ci \<noteq> None then (None, ci, [])
          else (case getConfigMap s ci of ((exists, err), ci1, tr1) \<Rightarrow>
            (case err of
               Some e \<Rightarrow> (Some e, ci1, tr1)
             | None \<Rightarrow>
                if exists then (None, ci1, tr1)
                else (case makeUID rnd of ((newId, uerr), tr2) \<Rightarrow>
                  (case uerr of
                     Some e \<Rightarrow> (Some e, ci1, tr1 @ tr2)
                   | None \<Rightarrow>
                      (case client ci1 (newConfigMap newId) of
                         Some e \<Rightarrow>
                           (Some e, ci1, tr1 @ tr2 @ [ClientCreate (newConfigMap newId)])
                       | None \<Rightarrow>
                           (None, setIds (newConfigMap newId) ci1,
                            tr1 @ tr2 @ [ClientCreate (newConfigMap newId)])))))))"

definition GetId :: "Rand \<Rightarrow> ClusterId \<Rightarrow> (string \<times> error option) \<times> ClusterId \<times> io list" where
  "GetId rnd ci =
     (case getOrInitialize rnd ci of (ierr, ci1, tr) \<Rightarrow>
        (case ierr of
           Some err \<Rightarrow> (('''', Some err), ci1, tr)
         | None \<Rightarrow>
            (case clusterId ci1 of
               None \<Rightarrow> (('''', Some ErrNoClusterId), ci1, tr)
             | Some cid \<Rightarrow>
                (case providerId ci1 of
                   Some pid \<Rightarrow>
                     if pid \<noteq> cid then ((pid, None), ci1, tr) else ((cid, None), ci1, tr)
                 | None \<Rightarrow> ((cid, None), ci1, tr)))))"

definition GetFederationId ::
    "Rand \<Rightarrow> ClusterId \<Rightarrow> (string \<times> bool \<times> error option) \<times> ClusterId \<times> io list" where
  "GetFederationId rnd ci =
     (case getOrInitialize rnd ci of (ierr, ci1, tr) \<Rightarrow>
        (case ierr of
           Some err \<Rightarrow> (('''', False, Some err), ci1, tr)
         | None \<Rightarrow>
            (case clusterId ci1 of
               None \<Rightarrow> (('''', False, Some ErrNoClusterId), ci1, tr)
             | Some cid \<Rightarrow>
                (case providerId ci1 of
                   None \<Rightarrow> (('''', False, None), ci1, tr)
                 | Some pid \<Rightarrow>
                     if cid = pid then (('''', False, None), ci1, tr)
                     else ((cid, True, None), ci1, tr)))))"

subsection \<open>Concrete states and collaborators\<close>

text \<open>
  \<open>newClusterId\<close> is the struct literal of \<^verbatim>\<open>watchClusterId\<close>: key and client set,
  everything else zero, so the store is still nil. \<open>started\<close> is the state once
  \<^verbatim>\<open>cache.NewInformer\<close> has handed its store over.
\<close>

definition newClusterId :: "Client \<Rightarrow> ClusterId" where
  "newClusterId c =
     \<lparr>client = c, cfgMapKey = UIDNamespace @ ''/'' @ UIDConfigMapName,
      store = None, providerId = None, clusterId = None\<rparr>"

definition started :: "Client \<Rightarrow> Store \<Rightarrow> ClusterId" where
  "started c s = (newClusterId c)\<lparr>store := Some s\<rparr>"

definition rnd0 :: Rand where
  "rnd0 = \<lparr>rand_bytes = (\<lambda>i. of_nat (16 * i + i + 1)), rand_err = None\<rparr>"

definition accepting_client :: Client where
  "accepting_client = (\<lambda>cfg. None)"

definition conflicting_client :: Client where
  "conflicting_client = (\<lambda>cfg. Some ErrAlreadyExists)"

definition empty_store :: Store where
  "empty_store = (\<lambda>key. (NilItem, False, None))"

definition single_store :: "ConfigMap \<Rightarrow> Store" where
  "single_store m =
     (\<lambda>key. if key = ''kube-system/ingress-uid'' then (ConfigMapPtr (Some m), True, None)
            else (NilItem, False, None))"

definition federated_map :: ConfigMap where
  "federated_map =
     \<lparr>Name = ''ingress-uid'', Namespace = ''kube-system'',
      Data = [''uid'' \<mapsto> ''a1'', ''provider-uid'' \<mapsto> ''b2'']\<rparr>"

definition provider_only_map :: ConfigMap where
  "provider_only_map =
     \<lparr>Name = ''ingress-uid'', Namespace = ''kube-system'',
      Data = [''provider-uid'' \<mapsto> ''b2'']\<rparr>"

definition cluster_only_map :: ConfigMap where
  "cluster_only_map =
     \<lparr>Name = ''ingress-uid'', Namespace = ''kube-system'',
      Data = [''uid'' \<mapsto> ''c3'']\<rparr>"

definition blank_map :: ConfigMap where
  "blank_map =
     \<lparr>Name = ''ingress-uid'', Namespace = ''kube-system'',
      Data = [''uid'' \<mapsto> '''']\<rparr>"

subsection \<open>Identities that are not the empty string\<close>

text \<open>
  A cached field, a stored record and a store whose values, where present, are not the
  empty string. Nothing in the source checks this; the predicates state it for the
  results about what \<open>GetId\<close> and \<open>GetFederationId\<close> hand out.
\<close>

definition present_nonempty :: "string option \<Rightarrow> bool" where
  "present_nonempty v = (case v of None \<Rightarrow> True | Some x \<Rightarrow> x \<noteq> '''')"

definition ids_nonempty :: "ClusterId \<Rightarrow> bool" where
  "ids_nonempty ci = (present_nonempty (clusterId ci) \<and> present_nonempty (providerId ci))"

definition record_nonempty :: "ConfigMap \<Rightarrow> bool" where
  "record_nonempty m =
     (present_nonempty (Data m UIDCluster) \<and> present_nonempty (Data m UIDProvider))"

definition stored_nonempty :: "ClusterId \<Rightarrow> bool" where
  "stored_nonempty ci =
     (case store ci of
        None \<Rightarrow> True
      | Some s \<Rightarrow> (case fst (s (cfgMapKey ci)) of
                     ConfigMapPtr (Some m) \<Rightarrow> record_nonempty m
                   | _ \<Rightarrow> True))"

lemmas consts_defs =
  UIDConfigMapName_def UIDNamespace_def UIDCluster_def UIDProvider_def UIDLengthBytes_def

lemmas ex_defs =
  newClusterId_def started_def rnd0_def accepting_client_def conflicting_client_def
  empty_store_def single_store_def federated_map_def provider_only_map_def
  cluster_only_map_def blank_map_def

lemmas op_defs =
  setIds_def makeUID_def getConfigMap_def newConfigMap_def getOrInitialize_def
  GetId_def GetFederationId_def

section \<open>What setIds does to the cache\<close>

lemma setIds_clusterId:
  "clusterId (setIds m ci) =
     (case Data m UIDCluster of Some v \<Rightarrow> Some v | None \<Rightarrow> clusterId ci)"
  by (simp add: setIds_def Let_def split: option.splits)

lemma setIds_providerId:
  "providerId (setIds m ci) =
     (case Data m UIDProvider of Some v \<Rightarrow> Some v | None \<Rightarrow> providerId ci)"
  by (simp add: setIds_def Let_def split: option.splits)

lemma setIds_other_fields:
  "store (setIds m ci) = store ci"
  "client (setIds m ci) = client ci"
  "cfgMapKey (setIds m ci) = cfgMapKey ci"
  by (simp_all add: setIds_def Let_def split: option.splits)

text \<open>
  C9. Applying the same record to the cache twice leaves the cache exactly as one
  application does: the whole \<open>ClusterId\<close> value is the same, and with it the two
  observable fields \<open>clusterId\<close> and \<open>providerId\<close>.
\<close>

theorem setIds_idempotent:
  "setIds m (setIds m ci) = setIds m ci"
  by (simp add: setIds_def Let_def split: option.splits)

text \<open>
  C8. A record whose data has no \<^verbatim>\<open>uid\<close> key leaves the cached \<open>clusterId\<close> as it
  was, and a record whose data has no \<^verbatim>\<open>provider-uid\<close> key leaves the cached
  \<open>providerId\<close> as it was: \<open>setIds\<close> never clears or changes a field the record lacks.
\<close>

theorem setIds_absent_field_untouched:
  "(Data m UIDCluster = None \<longrightarrow> clusterId (setIds m ci) = clusterId ci) \<and>
   (Data m UIDProvider = None \<longrightarrow> providerId (setIds m ci) = providerId ci)"
  by (simp add: setIds_clusterId setIds_providerId)

theorem setIds_absent_field_untouched_witness:
  "Data provider_only_map UIDCluster = None \<and>
   clusterId (setIds provider_only_map
      ((started accepting_client empty_store)\<lparr>clusterId := Some ''a1''\<rparr>)) = Some ''a1'' \<and>
   Data cluster_only_map UIDProvider = None \<and>
   providerId (setIds cluster_only_map
      ((started accepting_client empty_store)\<lparr>providerId := Some ''b2''\<rparr>)) = Some ''b2''"
  using setIds_absent_field_untouched
          [of provider_only_map "(started accepting_client empty_store)\<lparr>clusterId := Some ''a1''\<rparr>"]
        setIds_absent_field_untouched
          [of cluster_only_map "(started accepting_client empty_store)\<lparr>providerId := Some ''b2''\<rparr>"]
  by (simp add: ex_defs consts_defs)

text \<open>
  C7. Once \<open>clusterId\<close> holds a value (the pointer is not nil, which is what the fast
  path of \<open>getOrInitialize\<close> tests), no sequence of \<open>setIds\<close> applications, whatever
  the records, makes it nil again: after the sequence it holds the value it had, or the
  \<^verbatim>\<open>uid\<close> value of one of the applied records.
\<close>

theorem clusterId_never_cleared:
  assumes "clusterId ci = Some v"
  shows "\<exists>w. clusterId (fold setIds ms ci) = Some w \<and>
           (w = v \<or> (\<exists>m \<in> set ms. Data m UIDCluster = Some w))"
  using assms
proof (induction ms arbitrary: ci v)
  case Nil
  then show ?case by simp
next
  case (Cons m ms)
  show ?case
  proof (cases "Data m UIDCluster")
    case None
    then have "clusterId (setIds m ci) = Some v"
      using Cons.prems by (simp add: setIds_clusterId)
    from Cons.IH [OF this] show ?thesis by auto
  next
    case (Some u)
    then have "clusterId (setIds m ci) = Some u"
      by (simp add: setIds_clusterId)
    from Cons.IH [OF this] Some show ?thesis by auto
  qed
qed

theorem clusterId_never_cleared_witness:
  "clusterId ((started accepting_client empty_store)\<lparr>clusterId := Some ''a1''\<rparr>) = Some ''a1'' \<and>
   clusterId (fold setIds [provider_only_map, cluster_only_map, provider_only_map]
      ((started accepting_client empty_store)\<lparr>clusterId := Some ''a1''\<rparr>)) = Some ''c3''"
  using clusterId_never_cleared
          [of "(started accepting_client empty_store)\<lparr>clusterId := Some ''a1''\<rparr>" "''a1''"
              "[provider_only_map, cluster_only_map, provider_only_map]"]
  by (simp add: ex_defs consts_defs setIds_def)

section \<open>The lazy initialization\<close>

lemma getConfigMap_cases:
  "getConfigMap s ci = ((ex, err), ci1, tr) \<Longrightarrow>
     tr = [StoreGetByKey (cfgMapKey ci)] \<and> ((err \<noteq> None \<or> \<not> ex) \<longrightarrow> ci1 = ci)"
  by (auto simp: getConfigMap_def split: prod.splits option.splits if_splits item.splits)

text \<open>
  C10. Whenever \<open>getOrInitialize\<close> returns an error, whichever of its error returns it
  takes (store nil, \<^verbatim>\<open>GetByKey\<close> error, item that is not a \<^verbatim>\<open>*v1.ConfigMap\<close> or is a
  nil one, \<^verbatim>\<open>makeUID\<close> error, \<^verbatim>\<open>Create\<close> error), the state it leaves is the state it
  was called in; in particular \<open>clusterId\<close> and \<open>providerId\<close> are what they were.
\<close>

theorem getOrInitialize_error_keeps_cache:
  assumes "fst (getOrInitialize rnd ci) \<noteq> None"
  shows "fst (snd (getOrInitialize rnd ci)) = ci \<and>
         clusterId (fst (snd (getOrInitialize rnd ci))) = clusterId ci \<and>
         providerId (fst (snd (getOrInitialize rnd ci))) = providerId ci"
proof -
  obtain e ci1 tr where r: "getOrInitialize rnd ci = (Some e, ci1, tr)"
    using assms by (cases "getOrInitialize rnd ci") auto
  then have "ci1 = ci"
    by (auto simp: getOrInitialize_def makeUID_def
             split: option.splits if_splits prod.splits dest: getConfigMap_cases)
  with r show ?thesis by simp
qed

theorem getOrInitialize_error_keeps_cache_witness:
  "fst (getOrInitialize rnd0
          ((started conflicting_client empty_store)\<lparr>providerId := Some ''b2''\<rparr>)) \<noteq> None \<and>
   clusterId (fst (snd (getOrInitialize rnd0
          ((started conflicting_client empty_store)\<lparr>providerId := Some ''b2''\<rparr>)))) = None \<and>
   providerId (fst (snd (getOrInitialize rnd0
          ((started conflicting_client empty_store)\<lparr>providerId := Some ''b2''\<rparr>)))) = Some ''b2''"
  using getOrInitialize_error_keeps_cache
          [of rnd0 "(started conflicting_client empty_store)\<lparr>providerId := Some ''b2''\<rparr>"]
  by (simp add: op_defs ex_defs consts_defs)

text \<open>
  C6. A call of \<open>GetId\<close> or \<open>GetFederationId\<close> on a \<open>ClusterId\<close> whose store is still nil
  returns the not-ready error at once: the state is untouched and the list of store,
  random-source and client calls is empty.
\<close>

theorem not_started_fails_without_io:
  assumes "store ci = None"
  shows "GetId rnd ci = (('''', Some ErrNotReady), ci, []) \<and>
         GetFederationId rnd ci = (('''', False, Some ErrNotReady), ci, [])"
  using assms by (simp add: GetId_def GetFederationId_def getOrInitialize_def)

theorem not_started_fails_without_io_witness:
  "store (newClusterId accepting_client) = None \<and>
   fst (GetId rnd0 (newClusterId accepting_client)) = ('''', Some ErrNotReady) \<and>
   snd (snd (GetId rnd0 (newClusterId accepting_client))) = [] \<and>
   fst (GetFederationId rnd0 (newClusterId accepting_client)) = ('''', False, Some ErrNotReady) \<and>
   snd (snd (GetFederationId rnd0 (newClusterId accepting_client))) = []"
  using not_started_fails_without_io [of "newClusterId accepting_client" rnd0]
  by (simp add: newClusterId_def)

text \<open>
  C1, as the spec states it, fails: with a started watch, an empty cache, no stored
  record and a client that answers \<^verbatim>\<open>Create\<close> with AlreadyExists,
  \<open>getOrInitialize\<close> returns that error, and \<open>GetId\<close> and \<open>GetFederationId\<close> hand it to
  their callers.
\<close>

theorem AlreadyExists_is_propagated:
  "fst (getOrInitialize rnd0 (started conflicting_client empty_store)) = Some ErrAlreadyExists \<and>
   fst (GetId rnd0 (started conflicting_client empty_store)) = ('''', Some ErrAlreadyExists) \<and>
   fst (GetFederationId rnd0 (started conflicting_client empty_store)) =
     ('''', False, Some ErrAlreadyExists)"
  by (simp add: op_defs ex_defs consts_defs)

text \<open>
  C1, amended. When the creation of the record fails with any error, AlreadyExists
  included, \<open>getOrInitialize\<close> returns that error after one store read, one random read
  and the one creation attempt, leaves the cache as it was, and \<open>GetId\<close> and
  \<open>GetFederationId\<close> return the error to their callers.
\<close>

theorem create_error_is_returned:
  assumes "store ci = Some s" and "clusterId ci = None"
    and "snd (s (cfgMapKey ci)) = (False, None)"
    and "makeUID rnd = ((newId, None), tr2)"
    and "client ci (newConfigMap newId) = Some e"
  shows "getOrInitialize rnd ci =
           (Some e, ci, [StoreGetByKey (cfgMapKey ci)] @ tr2 @ [ClientCreate (newConfigMap newId)]) \<and>
         fst (GetId rnd ci) = ('''', Some e) \<and>
         fst (GetFederationId rnd ci) = ('''', False, Some e)"
  using assms
  by (auto simp: GetId_def GetFederationId_def getOrInitialize_def getConfigMap_def
           split: prod.splits)

theorem create_error_is_returned_witness:
  "fst (getOrInitialize rnd0 (started conflicting_client empty_store)) = Some ErrAlreadyExists \<and>
   fst (snd (getOrInitialize rnd0 (started conflicting_client empty_store))) =
     started conflicting_client empty_store \<and>
   fst (GetId rnd0 (started conflicting_client empty_store)) = ('''', Some ErrAlreadyExists)"
  using create_error_is_returned
          [of "started conflicting_client empty_store" empty_store rnd0 "''0112233445566778''"
              "[RandRead 8]" ErrAlreadyExists]
  by (simp add: makeUID_def EncodeToString_def hextable_def ex_defs consts_defs upt_rec)

section \<open>What GetId and GetFederationId return\<close>

text \<open>
  C2. Let \<open>getOrInitialize\<close> return success and leave the cache \<open>ci1\<close>. Then \<open>GetId\<close>
  fails with the could-not-retrieve error if \<open>clusterId\<close> is nil in \<open>ci1\<close>; it returns
  \<open>providerId\<close> if that is set and differs from \<open>clusterId\<close>; and it returns \<open>clusterId\<close>
  in every other case. \<open>GetId\<close> leaves the state and the calls made as \<open>getOrInitialize\<close>
  left them.
\<close>

theorem GetId_after_initialization:
  assumes "getOrInitialize rnd ci = (None, ci1, tr)"
  shows "(clusterId ci1 = None \<longrightarrow> fst (GetId rnd ci) = ('''', Some ErrNoClusterId)) \<and>
         (\<forall>cid pid. clusterId ci1 = Some cid \<and> providerId ci1 = Some pid \<and> pid \<noteq> cid \<longrightarrow>
              fst (GetId rnd ci) = (pid, None)) \<and>
         (\<forall>cid. clusterId ci1 = Some cid \<and> (providerId ci1 = None \<or> providerId ci1 = Some cid) \<longrightarrow>
              fst (GetId rnd ci) = (cid, None)) \<and>
         snd (GetId rnd ci) = (ci1, tr)"
  using assms by (auto simp: GetId_def split: option.splits)

theorem GetId_after_initialization_witness:
  "getOrInitialize rnd0 (started accepting_client (single_store federated_map)) =
     (None, setIds federated_map (started accepting_client (single_store federated_map)),
      [StoreGetByKey ''kube-system/ingress-uid'']) \<and>
   fst (GetId rnd0 (started accepting_client (single_store federated_map))) = (''b2'', None)"
  using GetId_after_initialization
          [of rnd0 "started accepting_client (single_store federated_map)"
              "setIds federated_map (started accepting_client (single_store federated_map))"
              "[StoreGetByKey ''kube-system/ingress-uid'']"]
  by (simp add: op_defs ex_defs consts_defs)

text \<open>
  C3. Let \<open>getOrInitialize\<close> return success and leave a cache \<open>ci1\<close> whose \<open>clusterId\<close>
  is set. Then \<open>GetFederationId\<close> returns the empty string, false and no error if
  \<open>providerId\<close> is nil or equal to \<open>clusterId\<close>, and it returns \<open>clusterId\<close> (not
  \<open>providerId\<close>), true and no error if \<open>providerId\<close> is set and differs from it.
\<close>

theorem GetFederationId_after_initialization:
  assumes "getOrInitialize rnd ci = (None, ci1, tr)" and "clusterId ci1 = Some cid"
  shows "((providerId ci1 = None \<or> providerId ci1 = Some cid) \<longrightarrow>
              fst (GetFederationId rnd ci) = ('''', False, None)) \<and>
         (\<forall>pid. providerId ci1 = Some pid \<and> pid \<noteq> cid \<longrightarrow>
              fst (GetFederationId rnd ci) = (cid, True, None)) \<and>
         snd (GetFederationId rnd ci) = (ci1, tr)"
  using assms by (auto simp: GetFederationId_def split: option.splits)

theorem GetFederationId_after_initialization_witness:
  "getOrInitialize rnd0 (started accepting_client (single_store federated_map)) =
     (None, setIds federated_map (started accepting_client (single_store federated_map)),
      [StoreGetByKey ''kube-system/ingress-uid'']) \<and>
   clusterId (setIds federated_map (started accepting_client (single_store federated_map))) =
     Some ''a1'' \<and>
   fst (GetFederationId rnd0 (started accepting_client (single_store federated_map))) =
     (''a1'', True, None)"
  using GetFederationId_after_initialization
          [of rnd0 "started accepting_client (single_store federated_map)"
              "setIds federated_map (started accepting_client (single_store federated_map))"
              "[StoreGetByKey ''kube-system/ingress-uid'']" "''a1''"]
  by (simp add: op_defs ex_defs consts_defs)

subsection \<open>Empty strings\<close>

lemma EncodeToString_length: "length (EncodeToString src) = 2 * length src"
  by (induction src) (simp_all add: EncodeToString_def)

lemma makeUID_length:
  "makeUID rnd = ((newId, None), tr) \<Longrightarrow> length newId = 2 * UIDLengthBytes"
  by (auto simp: makeUID_def EncodeToString_length split: option.splits)

lemma setIds_ids_nonempty:
  "record_nonempty m \<Longrightarrow> ids_nonempty ci \<Longrightarrow> ids_nonempty (setIds m ci)"
  by (auto simp: ids_nonempty_def record_nonempty_def setIds_clusterId setIds_providerId
                 present_nonempty_def split: option.splits)

lemma newConfigMap_nonempty: "newId \<noteq> '''' \<Longrightarrow> record_nonempty (newConfigMap newId)"
  by (simp add: record_nonempty_def newConfigMap_def present_nonempty_def consts_defs)

lemma getConfigMap_ids_nonempty:
  assumes "getConfigMap s ci = (r, ci1, tr)" and "store ci = Some s"
    and "stored_nonempty ci" and "ids_nonempty ci"
  shows "ids_nonempty ci1"
  using assms
  by (auto simp: getConfigMap_def stored_nonempty_def setIds_ids_nonempty
           split: prod.splits option.splits if_splits item.splits)

lemma getOrInitialize_ids_nonempty:
  assumes "getOrInitialize rnd ci = (r, ci1, tr)" and "stored_nonempty ci" and "ids_nonempty ci"
  shows "ids_nonempty ci1"
proof (cases "store ci")
  case None
  with assms show ?thesis by (simp add: getOrInitialize_def)
next
  case (Some s)
  show ?thesis
  proof (cases "clusterId ci")
    case (Some v)
    with assms \<open>store ci = Some s\<close> show ?thesis by (simp add: getOrInitialize_def)
  next
    case None
    obtain ex err ci2 tr1 where g: "getConfigMap s ci = ((ex, err), ci2, tr1)"
      by (metis prod.exhaust)
    have n2: "ids_nonempty ci2"
      using getConfigMap_ids_nonempty [OF g \<open>store ci = Some s\<close> assms(2) assms(3)] .
    obtain newId uerr tr2 where u: "makeUID rnd = ((newId, uerr), tr2)"
      by (metis prod.exhaust)
    have ne: "uerr = None \<Longrightarrow> newId \<noteq> ''''"
      using makeUID_length [of rnd newId tr2] u by (auto simp: UIDLengthBytes_def)
    show ?thesis
      using assms(1) \<open>store ci = Some s\<close> None g u n2 ne
      by (auto simp: getOrInitialize_def setIds_ids_nonempty newConfigMap_nonempty
               split: option.splits if_splits)
  qed
qed

text \<open>
  C4, as the spec states it, fails. On a cluster that is not federated (here the one
  whose record this very call creates, so that both ids are the fresh token)
  \<open>GetFederationId\<close> returns the empty string with a nil error; and \<open>GetId\<close> returns the
  empty string with a nil error when the stored record holds an empty \<^verbatim>\<open>uid\<close>.
\<close>

theorem empty_id_with_nil_error:
  "fst (GetFederationId rnd0 (started accepting_client empty_store)) = ('''', False, None) \<and>
   fst (GetId rnd0 (started accepting_client (single_store blank_map))) = ('''', None)"
  by (simp add: op_defs ex_defs consts_defs)

text \<open>
  C4, amended. If the ids in the cache and in the stored record are not empty strings,
  then \<open>GetId\<close> returns an error or a string that is not empty, and \<open>GetFederationId\<close>
  returns an error, or true with a string that is not empty, or false with the empty
  string (the answer for a cluster that is not federated).
\<close>

theorem identity_or_error:
  assumes "ids_nonempty ci" and "stored_nonempty ci"
  shows "(case fst (GetId rnd ci) of (uid, err) \<Rightarrow> err \<noteq> None \<or> uid \<noteq> '''') \<and>
         (case fst (GetFederationId rnd ci) of (uid, fed, err) \<Rightarrow>
            err \<noteq> None \<or> (fed \<and> uid \<noteq> '''') \<or> (\<not> fed \<and> uid = ''''))"
proof -
  obtain r ci1 tr where g: "getOrInitialize rnd ci = (r, ci1, tr)"
    by (metis prod.exhaust)
  have "ids_nonempty ci1"
    using getOrInitialize_ids_nonempty [OF g assms(2) assms(1)] .
  then show ?thesis
    using g
    by (auto simp: GetId_def GetFederationId_def ids_nonempty_def present_nonempty_def
             split: option.splits)
qed

theorem identity_or_error_witness:
  "ids_nonempty (started accepting_client (single_store federated_map)) \<and>
   stored_nonempty (started accepting_client (single_store federated_map)) \<and>
   fst (GetId rnd0 (started accepting_client (single_store federated_map))) = (''b2'', None) \<and>
   fst (GetFederationId rnd0 (started accepting_client (single_store federated_map))) =
     (''a1'', True, None)"
  using identity_or_error [of "started accepting_client (single_store federated_map)" rnd0]
  by (simp add: op_defs ex_defs consts_defs ids_nonempty_def stored_nonempty_def
                record_nonempty_def present_nonempty_def)

end
